theory Spec2Isabelle
  imports Main "HOL-Library.Sublist" "HOL-Library.Word"
begin

section \<open>JavaScript values\<close>

text \<open>
  Values that reach the server as parsed JSON: tool arguments, and the bodies of the
  backend's replies. An object is an association list in property order. A number is a
  safe integer, one that a double holds exactly and prints digit by digit: a signed
  54-bit word, \<open>- 2^53 \<le> sint n < 2^53\<close>. Fractions and larger magnitudes, which print
  in the shortest round-trip or in exponent notation, are outside this type.
\<close>

datatype json =
    JNull
  | JBool bool
  | JNum "54 word"
  | JStr string
  | JArr "json list"
  | JObj "(string \<times> json) list"

text \<open>ToBoolean, as used by \<open>||\<close> and \<open>&&\<close>.\<close>

fun truthy :: "json \<Rightarrow> bool" where
  "truthy JNull = False"
| "truthy (JBool b) = b"
| "truthy (JNum n) = (n \<noteq> 0)"
| "truthy (JStr s) = (s \<noteq> [])"
| "truthy (JArr xs) = True"
| "truthy (JObj kvs) = True"

subsection \<open>Decimal rendering of integers\<close>

definition digit_char :: "nat \<Rightarrow> char" where
  "digit_char d = char_of (48 + d)"

fun nat_dec :: "nat \<Rightarrow> string" where
  "nat_dec n = (if n < 10 then [digit_char n] else nat_dec (n div 10) @ [digit_char (n mod 10)])"

declare nat_dec.simps [simp del]

definition int_dec :: "int \<Rightarrow> string" where
  "int_dec i = (if i < 0 then CHR ''-'' # nat_dec (nat (- i)) else nat_dec (nat i))"

subsection \<open>String conversion in template literals\<close>

fun join :: "string \<Rightarrow> string list \<Rightarrow> string" where
  "join sep [] = []"
| "join sep [x] = x"
| "join sep (x # y # ys) = x @ sep @ join sep (y # ys)"

text \<open>
  \<open>String(v)\<close>, which a template literal applies to an interpolated value. An array
  joins its elements with a comma, \<open>null\<close> elements rendering as the empty string.
  An object prints through \<open>Object.prototype.toString\<close> unless it has a \<open>toString\<close>
  property of its own: a parsed JSON value is never callable, so the conversion then
  falls back on \<open>valueOf\<close>, obtains no primitive, and throws a TypeError.
  \<open>convertible v\<close> says that \<open>String(v)\<close> returns; \<open>js_string v\<close> is what it returns then.
\<close>

fun convertible :: "json \<Rightarrow> bool" where
  "convertible (JArr xs) = list_all convertible xs"
| "convertible (JObj kvs) = (map_of kvs ''toString'' = None)"
| "convertible v = True"

fun js_string :: "json \<Rightarrow> string" where
  "js_string JNull = ''null''"
| "js_string (JBool b) = (if b then ''true'' else ''false'')"
| "js_string (JNum n) = int_dec (sint n)"
| "js_string (JStr s) = s"
| "js_string (JArr xs) = join '','' (map (\<lambda>x. if x = JNull then [] else js_string x) xs)"
| "js_string (JObj kvs) = ''[object Object]''"

subsection \<open>JSON.stringify with a two-space indent\<close>

definition newline :: string where
  "newline = [CHR 0x0A]"

definition dquote :: string where
  "dquote = [CHR 0x22]"

definition gap :: string where
  "gap = ''  ''"

definition hex_char :: "nat \<Rightarrow> char" where
  "hex_char d = (if d < 10 then char_of (48 + d) else char_of (87 + d))"

text \<open>QuoteJSONString on one code unit.\<close>

definition backslash :: char where
  "backslash = CHR 0x5C"

definition quote_char :: "char \<Rightarrow> string" where
  "quote_char c =
     (let n = (of_char c :: nat) in
      if n = 8 then [backslash, CHR ''b'']
      else if n = 9 then [backslash, CHR ''t'']
      else if n = 10 then [backslash, CHR ''n'']
      else if n = 12 then [backslash, CHR ''f'']
      else if n = 13 then [backslash, CHR ''r'']
      else if n = 34 then [backslash, c]
      else if n = 92 then [backslash, c]
      else if n < 32 then [backslash] @ ''u00'' @ [hex_char (n div 16), hex_char (n mod 16)]
      else [c])"

definition quote :: "string \<Rightarrow> string" where
  "quote s = [CHR 0x22] @ concat (map quote_char s) @ [CHR 0x22]"

fun stringify :: "string \<Rightarrow> json \<Rightarrow> string" where
  "stringify ind JNull = ''null''"
| "stringify ind (JBool b) = (if b then ''true'' else ''false'')"
| "stringify ind (JNum n) = int_dec (sint n)"
| "stringify ind (JStr s) = quote s"
| "stringify ind (JArr xs) =
     (if xs = [] then ''[]''
      else ''['' @ newline @ (ind @ gap)
           @ join ('','' @ newline @ (ind @ gap)) (map (\<lambda>x. stringify (ind @ gap) x) xs)
           @ newline @ ind @ '']'')"
| "stringify ind (JObj kvs) =
     (if kvs = [] then ''{}''
      else ''{'' @ newline @ (ind @ gap)
           @ join ('','' @ newline @ (ind @ gap))
               (map (\<lambda>p. quote (fst p) @ '': '' @ stringify (ind @ gap) (snd p)) kvs)
           @ newline @ ind @ ''}'')"

definition JSON_stringify :: "json \<Rightarrow> string" where
  "JSON_stringify v = stringify [] v"

section \<open>Tool results, thrown values and the backend client\<close>

text \<open>
  A content fragment \<open>{type: "text", text: ...}\<close> (the field \<open>text\<close> is written \<open>text'\<close>
  here); a tool result is its \<open>content\<close> list.
\<close>

record fragment =
  type :: string
  text' :: string

definition text_fragment :: "string \<Rightarrow> fragment" where
  "text_fragment s = \<lparr>type = ''text'', text' = s\<rparr>"

text \<open>
  What a rejected backend promise throws: an \<open>Error\<close> object with its \<open>name\<close> and
  \<open>message\<close>, or any other value.
\<close>

datatype thrown = Error string string | NotError json

text \<open>\<open>`${error}`\<close>: \<open>Error.prototype.toString\<close> for an error object.\<close>

fun thrown_string :: "thrown \<Rightarrow> string" where
  "thrown_string (Error name msg) =
     (if name = [] then msg else if msg = [] then name else name @ '': '' @ msg)"
| "thrown_string (NotError v) = js_string v"

text \<open>\<open>error instanceof Error ? error.message : String(error)\<close>\<close>

fun message_or_string :: "thrown \<Rightarrow> string" where
  "message_or_string (Error name msg) = msg"
| "message_or_string (NotError v) = js_string v"

text \<open>
  Modelled from the spec: the reply types of the backend client are declared in the
  Elasticsearch client library, not in this repository. Search "returns a hit list with
  per-hit source documents and a total-count value in either of two shapes": \<open>hits.total\<close>
  is a number, an object with a \<open>value\<close>, or absent; \<open>hits.hits\<close> lists the hits, each
  with its \<open>_source\<close> document (the field \<open>source\<close> here).
\<close>

datatype total_hits = TotalNumber int | TotalObject int

record search_hit =
  source :: json

record search_response =
  hits_total :: "total_hits option"
  hits_hits :: "search_hit list"

text \<open>
  Modelled from the spec: the Elasticsearch client \<open>esClient\<close> is an external library;
  each of the three operations the handlers call either throws or returns.
  \<open>cat_indices\<close> is the outcome of \<open>esClient.cat.indices({format: "json"})\<close>, a list of raw
  catalog objects; \<open>getMapping\<close> is \<open>esClient.indices.getMapping({index})\<close>, returning an
  object keyed by index name; \<open>es_search\<close> is \<open>esClient.search(searchRequest)\<close>.
\<close>

record backend =
  cat_indices :: "thrown + (string \<times> json) list list"
  getMapping :: "string \<Rightarrow> thrown + (string \<times> json) list"
  es_search :: "(string \<rightharpoonup> json) \<Rightarrow> thrown + search_response"

text \<open>What a handler does besides returning: backend calls and \<open>console.error\<close> lines.\<close>

datatype effect =
    CatIndices
  | GetMapping string
  | Search "string \<rightharpoonup> json"
  | ConsoleError string

fun is_backend_call :: "effect \<Rightarrow> bool" where
  "is_backend_call (ConsoleError s) = False"
| "is_backend_call e = True"

definition backend_calls :: "effect list \<Rightarrow> effect list" where
  "backend_calls fx = filter is_backend_call fx"

section \<open>Tool 1: list\_indices\<close>

text \<open>The two module-level variables \<open>cachedIndices\<close> and \<open>cacheTimestamp\<close>, both initially \<open>null\<close>.\<close>

record index_summary =
  index :: "json option"
  health :: "json option"
  status :: "json option"
  docsCount :: "json option"

record cache =
  cachedIndices :: "index_summary list option"
  cacheTimestamp :: "int option"

definition initial_cache :: cache where
  "initial_cache = \<lparr>cachedIndices = None, cacheTimestamp = None\<rparr>"

definition CACHE_DURATION :: int where
  "CACHE_DURATION = 600000"

text \<open>The projection inside \<open>response.map\<close>: four property reads, absent ones \<open>undefined\<close>.\<close>

definition project :: "(string \<times> json) list \<Rightarrow> index_summary" where
  "project raw =
     \<lparr>index = map_of raw ''index'',
      health = map_of raw ''health'',
      status = map_of raw ''status'',
      docsCount = map_of raw ''docsCount''\<rparr>"

text \<open>\<open>JSON.stringify\<close> leaves out the properties whose value is \<open>undefined\<close>.\<close>

fun own_defined :: "(string \<times> json option) list \<Rightarrow> (string \<times> json) list" where
  "own_defined [] = []"
| "own_defined ((k, None) # ps) = own_defined ps"
| "own_defined ((k, Some v) # ps) = (k, v) # own_defined ps"

definition summary_json :: "index_summary \<Rightarrow> json" where
  "summary_json s =
     JObj (own_defined
       [(''index'', index s), (''health'', health s), (''status'', status s),
        (''docsCount'', docsCount s)])"

definition indices_json :: "index_summary list \<Rightarrow> json" where
  "indices_json xs = JArr (map summary_json xs)"

text \<open>
  \<open>cachedIndices && cacheTimestamp && now - cacheTimestamp < CACHE_DURATION\<close>: an array is
  truthy, a number is truthy unless it is zero.
\<close>

definition cache_hit :: "int \<Rightarrow> cache \<Rightarrow> index_summary list option" where
  "cache_hit now c =
     (case cachedIndices c of
        None \<Rightarrow> None
      | Some xs \<Rightarrow>
          (case cacheTimestamp c of
             None \<Rightarrow> None
           | Some t \<Rightarrow> if t \<noteq> 0 \<and> now - t < CACHE_DURATION then Some xs else None))"

definition cached_reply :: "index_summary list \<Rightarrow> fragment list" where
  "cached_reply xs =
     [text_fragment (''Found '' @ nat_dec (length xs) @ '' indices (cached)''),
      text_fragment (JSON_stringify (indices_json xs))]"

definition fresh_reply :: "index_summary list \<Rightarrow> fragment list" where
  "fresh_reply xs =
     [text_fragment (''Found '' @ nat_dec (length xs) @ '' indices''),
      text_fragment (JSON_stringify (indices_json xs))]"

text \<open>
  The handler, called at time \<open>now = Date.now()\<close> with the cache \<open>c\<close>: its result, the
  cache afterwards and its effects.
\<close>

definition list_indices :: "backend \<Rightarrow> int \<Rightarrow> cache \<Rightarrow> fragment list \<times> cache \<times> effect list" where
  "list_indices be now c =
     (case cache_hit now c of
        Some xs \<Rightarrow> (cached_reply xs, c, [])
      | None \<Rightarrow>
          (case cat_indices be of
             Inr response \<Rightarrow>
               (fresh_reply (map project response),
                \<lparr>cachedIndices = Some (map project response), cacheTimestamp = Some now\<rparr>,
                [CatIndices])
           | Inl error \<Rightarrow>
               ([text_fragment (''Error: '' @ thrown_string error)],
                c,
                [CatIndices, ConsoleError (''Failed to list indices: '' @ thrown_string error)])))"

text \<open>A run of calls, each with the backend and the clock it meets, threading the cache.\<close>

fun list_indices_calls :: "(backend \<times> int) list \<Rightarrow> cache \<Rightarrow> (fragment list \<times> effect list) list" where
  "list_indices_calls [] c = []"
| "list_indices_calls ((be, now) # rest) c =
     (case list_indices be now c of
        (r, c', fx) \<Rightarrow> (r, fx) # list_indices_calls rest c')"

section \<open>Tool 2: get\_mappings\<close>

text \<open>\<open>mappingResponse[index]?.mappings || {}\<close>\<close>

definition mappings_or_empty :: "(string \<times> json) list \<Rightarrow> string \<Rightarrow> json" where
  "mappings_or_empty mappingResponse i =
     (case map_of mappingResponse i of
        Some (JObj entry) \<Rightarrow>
          (case map_of entry ''mappings'' of
             Some m \<Rightarrow> if truthy m then m else JObj []
           | None \<Rightarrow> JObj [])
      | _ \<Rightarrow> JObj [])"

definition get_mappings :: "backend \<Rightarrow> string \<Rightarrow> fragment list \<times> effect list" where
  "get_mappings be i =
     (case getMapping be i of
        Inr mappingResponse \<Rightarrow>
          ([text_fragment (''Mappings for index: '' @ i),
            text_fragment (''Mappings for index '' @ i @ '': ''
              @ JSON_stringify (mappings_or_empty mappingResponse i))],
           [GetMapping i])
      | Inl error \<Rightarrow>
          ([text_fragment (''Error: '' @ message_or_string error)],
           [GetMapping i, ConsoleError (''Failed to get mappings: '' @ message_or_string error)]))"

section \<open>Tool 3: search\<close>

definition highlight_all :: json where
  "highlight_all = JObj [(''fields'', JObj [(''*'', JObj [])])]"

text \<open>
  \<open>{ index, ...queryBody, highlight: { fields: { "*": {} } } }\<close>: properties are written
  left to right, a later write of a key replacing an earlier one.
\<close>

definition searchRequest :: "string \<Rightarrow> (string \<rightharpoonup> json) \<Rightarrow> (string \<rightharpoonup> json)" where
  "searchRequest i queryBody = ([''index'' \<mapsto> JStr i] ++ queryBody)(''highlight'' \<mapsto> highlight_all)"

text \<open>
  \<open>queryBody.from || 0\<close>, as the template literal prints it, or the TypeError the
  template literal throws when the value cannot be converted to a string.
\<close>

definition not_convertible :: thrown where
  "not_convertible = Error ''TypeError'' ''Cannot convert object to primitive value''"

definition from_text :: "(string \<rightharpoonup> json) \<Rightarrow> thrown + string" where
  "from_text queryBody =
     (case queryBody ''from'' of
        Some v \<Rightarrow>
          if truthy v then (if convertible v then Inr (js_string v) else Inl not_convertible)
          else Inr ''0''
      | None \<Rightarrow> Inr ''0'')"

text \<open>
  \<open>typeof result.hits.total === "number" ? result.hits.total : result.hits.total?.value || 0\<close>
\<close>

definition total_count :: "total_hits option \<Rightarrow> int" where
  "total_count t =
     (case t of
        Some (TotalNumber n) \<Rightarrow> n
      | Some (TotalObject v) \<Rightarrow> if v \<noteq> 0 then v else 0
      | None \<Rightarrow> 0)"

definition contentFragments :: "search_response \<Rightarrow> fragment list" where
  "contentFragments result = map (\<lambda>hit. text_fragment (JSON_stringify (source hit))) (hits_hits result)"

text \<open>The metadata fragment, given the text that \<open>${from}\<close> printed.\<close>

definition metadataFragment :: "search_response \<Rightarrow> string \<Rightarrow> fragment" where
  "metadataFragment result from =
     text_fragment (''Total results: '' @ int_dec (total_count (hits_total result))
       @ '', showing '' @ nat_dec (length (hits_hits result))
       @ '' from position '' @ from)"

text \<open>
  The handler. Everything after the backend call is inside the \<open>try\<close> as well, so a
  TypeError from the template literal ends in the same \<open>catch\<close> as a backend failure.
\<close>

definition search_failed :: "thrown \<Rightarrow> (string \<rightharpoonup> json) \<Rightarrow> fragment list \<times> effect list" where
  "search_failed error request =
     ([text_fragment (''Error: '' @ thrown_string error)],
      [Search request, ConsoleError (''Search failed: '' @ thrown_string error)])"

definition search :: "backend \<Rightarrow> string \<Rightarrow> (string \<rightharpoonup> json) \<Rightarrow> fragment list \<times> effect list" where
  "search be i queryBody =
     (case es_search be (searchRequest i queryBody) of
        Inr result \<Rightarrow>
          (case from_text queryBody of
             Inr from \<Rightarrow>
               (metadataFragment result from # contentFragments result,
                [Search (searchRequest i queryBody)])
           | Inl error \<Rightarrow> search_failed error (searchRequest i queryBody))
      | Inl error \<Rightarrow> search_failed error (searchRequest i queryBody))"

section \<open>Input schemas\<close>

text \<open>
  Each tool is registered with \<open>server.tool(name, description, schema, handler)\<close>. The
  schemas and the handlers are this program's; the dispatch is the server library's:
  input schemas are validated before any other logic runs, and the handler is called with
  the parsed arguments only when they pass. \<open>Rejected issues\<close> is an invocation the
  schema refused, with the messages of the failed checks: no handler ran, and the reply
  is the library's. \<open>Handled r\<close> is an invocation whose handler returned \<open>r\<close>.
\<close>

datatype 'a invocation = Rejected "string list" | Handled 'a

text \<open>\<open>String.prototype.trim\<close> on code units below 256.\<close>

definition is_space :: "char \<Rightarrow> bool" where
  "is_space c = ((of_char c :: nat) \<in> {9, 10, 11, 12, 13, 32, 160})"

definition trim :: "string \<Rightarrow> string" where
  "trim s = rev (dropWhile is_space (rev (dropWhile is_space s)))"

text \<open>
  A \<open>queryBody\<close> argument that is a record: either one of JSON values, or one on which
  \<open>JSON.stringify\<close> throws (it reaches itself, or holds a BigInt).
\<close>

datatype query_arg = Plain "string \<rightharpoonup> json" | Unserializable

text \<open>The \<open>refine\<close> check: \<open>try { JSON.parse(JSON.stringify(val)); return true } catch { return false }\<close>\<close>

fun round_trips :: "query_arg \<Rightarrow> bool" where
  "round_trips (Plain q) = True"
| "round_trips Unserializable = False"

definition index_issues :: "string \<Rightarrow> string \<Rightarrow> string list" where
  "index_issues message i = (if length (trim i) < 1 then [message] else [])"

definition queryBody_issues :: "query_arg \<Rightarrow> string list" where
  "queryBody_issues qa =
     (if round_trips qa then []
      else [''queryBody must be a valid Elasticsearch query DSL object''])"

definition list_indices_tool ::
  "backend \<Rightarrow> int \<Rightarrow> cache \<Rightarrow> fragment list invocation \<times> cache \<times> effect list" where
  "list_indices_tool be now c =
     (case list_indices be now c of (r, c', fx) \<Rightarrow> (Handled r, c', fx))"

definition get_mappings_tool :: "backend \<Rightarrow> string \<Rightarrow> fragment list invocation \<times> effect list" where
  "get_mappings_tool be i =
     (if index_issues ''Index name is required'' i = []
      then (case get_mappings be (trim i) of (r, fx) \<Rightarrow> (Handled r, fx))
      else (Rejected (index_issues ''Index name is required'' i), []))"

definition search_tool ::
  "backend \<Rightarrow> string \<Rightarrow> query_arg \<Rightarrow> fragment list invocation \<times> effect list" where
  "search_tool be i qa =
     (case qa of
        Plain queryBody \<Rightarrow>
          (if index_issues ''Exact index name is required.'' i = []
           then (case search be (trim i) queryBody of (r, fx) \<Rightarrow> (Handled r, fx))
           else (Rejected (index_issues ''Exact index name is required.'' i), []))
      | Unserializable \<Rightarrow>
          (Rejected (index_issues ''Exact index name is required.'' i
             @ queryBody_issues Unserializable), []))"


section \<open>Shapes of results\<close>

definition well_formed :: "fragment list \<Rightarrow> bool" where
  "well_formed r = (r \<noteq> [] \<and> list_all (\<lambda>f. type f = ''text'') r)"

definition is_error_result :: "fragment list \<Rightarrow> bool" where
  "is_error_result r =
     (length r = 1 \<and> type (hd r) = ''text'' \<and> prefix ''Error:'' (text' (hd r)))"

section \<open>Example backends and arguments\<close>

definition refused :: thrown where
  "refused = Error ''ConnectionError'' ''connect ECONNREFUSED''"

definition backend_down :: backend where
  "backend_down =
     \<lparr>cat_indices = Inl refused,
      getMapping = (\<lambda>i. Inl refused),
      es_search = (\<lambda>request. Inl refused)\<rparr>"

definition logs_entry :: "(string \<times> json) list" where
  "logs_entry =
     [(''index'', JStr ''logs''), (''health'', JStr ''green''), (''status'', JStr ''open''),
      (''uuid'', JStr ''u1''), (''docs.count'', JStr ''5'')]"

definition two_hits :: search_response where
  "two_hits =
     \<lparr>hits_total = Some (TotalObject 42),
      hits_hits =
        [\<lparr>source = JObj [(''a'', JNum 1), (''tags'', JArr [JStr ''x'', JNull])]\<rparr>,
         \<lparr>source = JObj []\<rparr>]\<rparr>"

definition backend_up :: backend where
  "backend_up =
     \<lparr>cat_indices = Inr [logs_entry],
      getMapping = (\<lambda>i. Inr [(''other'', JObj [(''mappings'', JObj [])])]),
      es_search = (\<lambda>request. Inr two_hits)\<rparr>"

definition no_query :: "string \<rightharpoonup> json" where
  "no_query = Map.empty"

definition from_ten :: "string \<rightharpoonup> json" where
  "from_ten = [''from'' \<mapsto> JNum 10]"

definition from_object :: "string \<rightharpoonup> json" where
  "from_object = [''from'' \<mapsto> JObj [(''toString'', JNum 1)]]"


definition override_query :: "string \<rightharpoonup> json" where
  "override_query = [''index'' \<mapsto> JStr ''other'', ''highlight'' \<mapsto> JNull, ''size'' \<mapsto> JNum 5]"

section \<open>Rendering lemmas\<close>

lemma JSON_stringify_empty_object: "JSON_stringify (JObj []) = ''{}''"
  by (simp add: JSON_stringify_def)

lemma nat_dec_0: "nat_dec 0 = ''0''"
  by code_simp

lemma int_dec_0: "int_dec 0 = ''0''"
  by code_simp

lemma int_dec_42: "int_dec 42 = ''42''"
  by code_simp

lemma list_indices_tool_handled:
  "fst (list_indices_tool be now c) = Handled (fst (list_indices be now c))"
  by (simp add: list_indices_tool_def split: prod.split)

section \<open>Error containment\<close>

lemma well_formed_list_indices: "well_formed (fst (list_indices be now c))"
  by (simp add: list_indices_def well_formed_def cached_reply_def fresh_reply_def
      text_fragment_def split: option.split sum.split)

lemma well_formed_get_mappings: "well_formed (fst (get_mappings be i))"
  by (simp add: get_mappings_def well_formed_def text_fragment_def split: sum.split)

lemma well_formed_search: "well_formed (fst (search be i q))"
  by (simp add: search_def search_failed_def well_formed_def metadataFragment_def
      contentFragments_def text_fragment_def list_all_iff split: sum.split)

text \<open>
  C1, as far as the handlers go: each of the three handlers always returns a non-empty
  list of text fragments, and when the backend operation it calls throws, it returns
  exactly one text fragment whose text begins with \<open>Error:\<close>. Nothing is thrown past a
  handler. (Arguments that fail the input schema never reach a handler; see below.)
\<close>

theorem handlers_contain_backend_failures:
  "well_formed (fst (list_indices be now c))
   \<and> well_formed (fst (get_mappings be i))
   \<and> well_formed (fst (search be j q))
   \<and> (cache_hit now c = None \<and> cat_indices be = Inl e1
        \<longrightarrow> is_error_result (fst (list_indices be now c)))
   \<and> (getMapping be i = Inl e2 \<longrightarrow> is_error_result (fst (get_mappings be i)))
   \<and> (es_search be (searchRequest j q) = Inl e3 \<longrightarrow> is_error_result (fst (search be j q)))"
proof -
  have "is_error_result (fst (list_indices be now c))"
    if "cache_hit now c = None" "cat_indices be = Inl e1"
    using that by (simp add: list_indices_def is_error_result_def text_fragment_def)
  moreover have "is_error_result (fst (get_mappings be i))" if "getMapping be i = Inl e2"
    using that by (simp add: get_mappings_def is_error_result_def text_fragment_def)
  moreover have "is_error_result (fst (search be j q))"
    if "es_search be (searchRequest j q) = Inl e3"
    using that by (simp add: search_def search_failed_def is_error_result_def text_fragment_def)
  ultimately show ?thesis
    using well_formed_list_indices well_formed_get_mappings well_formed_search by blast
qed

theorem handlers_contain_backend_failures_witness:
  "cache_hit 1000 initial_cache = None
   \<and> cat_indices backend_down = Inl refused
   \<and> getMapping backend_down ''logs'' = Inl refused
   \<and> es_search backend_down (searchRequest ''logs'' no_query) = Inl refused
   \<and> is_error_result (fst (list_indices backend_down 1000 initial_cache))
   \<and> is_error_result (fst (get_mappings backend_down ''logs''))
   \<and> is_error_result (fst (search backend_down ''logs'' no_query))
   \<and> fst (search backend_down ''logs'' no_query)
       = [text_fragment ''Error: ConnectionError: connect ECONNREFUSED'']"
proof -
  have h1: "cache_hit 1000 initial_cache = None"
    by (simp add: cache_hit_def initial_cache_def)
  have h2: "cat_indices backend_down = Inl refused"
    by (simp add: backend_down_def)
  have h3: "getMapping backend_down ''logs'' = Inl refused"
    by (simp add: backend_down_def)
  have h4: "es_search backend_down (searchRequest ''logs'' no_query) = Inl refused"
    by (simp add: backend_down_def)
  have h5: "fst (search backend_down ''logs'' no_query)
       = [text_fragment ''Error: ConnectionError: connect ECONNREFUSED'']"
    by (simp add: search_def search_failed_def backend_down_def refused_def)
  from handlers_contain_backend_failures
    [of backend_down 1000 initial_cache "''logs''" "''logs''" no_query refused refused refused]
  show ?thesis using h1 h2 h3 h4 h5 by simp
qed

text \<open>
  C1 as stated also covers validation failures, and there it fails: a
  \<open>get_mappings\<close> call whose index is blank is rejected by the schema, so the handler
  with its \<open>catch\<close> never runs (it has no effect at all) and this program builds no
  \<open>Error:\<close> fragment for it; the one text it supplies, the schema's message, does not
  begin with \<open>Error:\<close>.
\<close>

theorem rejected_get_mappings_is_no_error_result:
  "fst (get_mappings_tool backend_down ''  '') = Rejected [''Index name is required'']
   \<and> snd (get_mappings_tool backend_down ''  '') = []
   \<and> \<not> prefix ''Error:'' ''Index name is required''"
  by (simp add: get_mappings_tool_def index_issues_def trim_def is_space_def)

lemma valid_search_runs_handler:
  assumes "trim i \<noteq> []"
  shows "search_tool be i (Plain q) = (Handled (fst (search be (trim i) q)), snd (search be (trim i) q))"
  using assms by (simp add: search_tool_def index_issues_def split: prod.split)

section \<open>The search request\<close>

lemma search_dispatches_request:
  "backend_calls (snd (search be i q)) = [Search (searchRequest i q)]"
  by (simp add: search_def search_failed_def backend_calls_def split: sum.split)

text \<open>
  C2, in the form that holds: the handler makes exactly one backend call, with the
  request \<open>searchRequest i q\<close>. When the query body has no \<open>index\<close> key the request
  carries the explicit index \<open>i\<close>, and every key of the query body other than \<open>index\<close>
  and \<open>highlight\<close> reaches the request with the caller's value.
\<close>

theorem explicit_index_unless_overridden:
  "backend_calls (snd (search be i q)) = [Search (searchRequest i q)]
   \<and> (q ''index'' = None \<longrightarrow> searchRequest i q ''index'' = Some (JStr i))
   \<and> (\<forall>k v. q k = Some v \<and> k \<noteq> ''index'' \<and> k \<noteq> ''highlight''
         \<longrightarrow> searchRequest i q k = Some v)"
proof -
  have "searchRequest i q ''index'' = Some (JStr i)" if "q ''index'' = None"
    using that by (simp add: searchRequest_def map_add_def)
  moreover have "searchRequest i q k = Some v"
    if "q k = Some v" "k \<noteq> ''highlight''" for k v
    using that by (simp add: searchRequest_def map_add_def)
  ultimately show ?thesis
    using search_dispatches_request by blast
qed

theorem explicit_index_unless_overridden_witness:
  "from_ten ''index'' = None
   \<and> from_ten ''from'' = Some (JNum 10)
   \<and> searchRequest ''logs'' from_ten ''index'' = Some (JStr ''logs'')
   \<and> searchRequest ''logs'' from_ten ''from'' = Some (JNum 10)"
proof -
  have h1: "from_ten ''index'' = None"
    by (simp add: from_ten_def)
  have h2: "from_ten ''from'' = Some (JNum 10)"
    by (simp add: from_ten_def)
  from explicit_index_unless_overridden [of backend_up "''logs''" from_ten]
  show ?thesis using h1 h2 by simp
qed

text \<open>
  C2 as stated fails twice over on the query body
  \<open>{index: "other", highlight: null, size: 5}\<close> searched on \<open>logs\<close>: the spread comes
  after \<open>index\<close>, so the request goes to \<open>other\<close>; and \<open>highlight\<close> is written after the
  spread, so the caller's \<open>highlight\<close> does not take precedence.
\<close>

theorem queryBody_index_overrides_and_highlight_is_lost:
  "override_query ''index'' = Some (JStr ''other'')
   \<and> searchRequest ''logs'' override_query ''index'' = Some (JStr ''other'')
   \<and> searchRequest ''logs'' override_query ''index'' \<noteq> Some (JStr ''logs'')
   \<and> override_query ''highlight'' = Some JNull
   \<and> searchRequest ''logs'' override_query ''highlight'' \<noteq> override_query ''highlight''"
  by (simp add: searchRequest_def override_query_def highlight_all_def map_add_def)

text \<open>
  C10: whatever the index and the query body, also one with a \<open>highlight\<close> key of its
  own, the request handed to the backend carries \<open>highlight = {fields: {"*": {}}}\<close>.
\<close>

theorem highlight_always_forced:
  "searchRequest i q ''highlight'' = Some highlight_all
   \<and> highlight_all = JObj [(''fields'', JObj [(''*'', JObj [])])]
   \<and> backend_calls (snd (search be i q)) = [Search (searchRequest i q)]"
  by (simp add: searchRequest_def highlight_all_def search_dispatches_request)

section \<open>Normalising the search reply\<close>

lemma metadata_text:
  "text' (metadataFragment result q)
     = ''Total results: '' @ int_dec (total_count (hits_total result))
       @ '', showing '' @ nat_dec (length (hits_hits result))
       @ '' from position '' @ q"
  by (simp add: metadataFragment_def text_fragment_def)

text \<open>
  C6: the reported total is the total-hits field itself when it is a number, its
  \<open>value\<close> when it is an object, and 0 when it is absent; the metadata text starts with
  \<open>Total results:\<close> followed by that number, so both \<open>42\<close> and \<open>{value: 42}\<close> give
  \<open>Total results: 42\<close>.
\<close>

theorem total_count_both_shapes:
  "total_count (Some (TotalNumber n)) = n
   \<and> total_count (Some (TotalObject n)) = n
   \<and> total_count None = 0
   \<and> prefix (''Total results: '' @ int_dec (total_count (hits_total result)) @ '','')
        (text' (metadataFragment result q))
   \<and> prefix ''Total results: 42,''
        (text' (metadataFragment \<lparr>hits_total = Some (TotalNumber 42), hits_hits = hs\<rparr> q))
   \<and> prefix ''Total results: 42,''
        (text' (metadataFragment \<lparr>hits_total = Some (TotalObject 42), hits_hits = hs\<rparr> q))
   \<and> prefix ''Total results: 0,''
        (text' (metadataFragment \<lparr>hits_total = None, hits_hits = hs\<rparr> q))"
proof -
  have a: "total_count (Some (TotalNumber m)) = m" for m
    by (simp add: total_count_def)
  have b: "total_count (Some (TotalObject m)) = m" for m
    by (simp add: total_count_def)
  have c: "total_count None = 0"
    by (simp add: total_count_def)
  have d: "prefix (''Total results: '' @ int_dec (total_count (hits_total r)) @ '','')
        (text' (metadataFragment r q))" for r
    by (simp add: metadata_text)
  have e: "prefix ''Total results: 42,''
        (text' (metadataFragment \<lparr>hits_total = Some (TotalNumber 42), hits_hits = hs\<rparr> q))"
    using d [of "\<lparr>hits_total = Some (TotalNumber 42), hits_hits = hs\<rparr>"]
    by (simp add: a int_dec_42)
  have f: "prefix ''Total results: 42,''
        (text' (metadataFragment \<lparr>hits_total = Some (TotalObject 42), hits_hits = hs\<rparr> q))"
    using d [of "\<lparr>hits_total = Some (TotalObject 42), hits_hits = hs\<rparr>"]
    by (simp add: b int_dec_42)
  have g: "prefix ''Total results: 0,''
        (text' (metadataFragment \<lparr>hits_total = None, hits_hits = hs\<rparr> q))"
    using d [of "\<lparr>hits_total = None, hits_hits = hs\<rparr>"]
    by (simp add: c int_dec_0)
  from a b c d e f g show ?thesis by blast
qed

lemma from_text_absent: "q ''from'' = None \<Longrightarrow> from_text q = Inr ''0''"
  by (simp add: from_text_def)

lemma from_text_number: "q ''from'' = Some (JNum n) \<Longrightarrow> from_text q = Inr (int_dec (sint n))"
  by (simp add: from_text_def int_dec_0)

text \<open>
  A \<open>from\<close> that cannot be printed: the backend returned, and the handler still ends in
  its \<open>catch\<close>.
\<close>

lemma from_object_fails:
  "fst (search backend_up ''logs'' from_object)
     = [text_fragment ''Error: TypeError: Cannot convert object to primitive value'']"
  by (simp add: search_def search_failed_def backend_up_def from_object_def from_text_def
      not_convertible_def)

lemma stringify_first_source:
  "JSON_stringify (JObj [(''a'', JNum 1), (''tags'', JArr [JStr ''x'', JNull])])
     = ''{'' @ newline
       @ ''  '' @ dquote @ ''a'' @ dquote @ '': 1,'' @ newline
       @ ''  '' @ dquote @ ''tags'' @ dquote @ '': ['' @ newline
       @ ''    '' @ dquote @ ''x'' @ dquote @ '','' @ newline
       @ ''    null'' @ newline
       @ ''  ]'' @ newline
       @ ''}''"
  by code_simp

text \<open>
  C7: a successful search is one where the backend search returns and the handler
  completes its \<open>try\<close>, that is, \<open>${from}\<close> prints some text. The content is then the
  metadata fragment \<open>Total results: {total}, showing {N} from position {from}\<close>, with
  \<open>N\<close> the number of hits, followed by one text fragment per hit in the backend's
  order, each the JSON text of that hit's source document. \<open>from\<close> prints as 0 when the
  query body has no \<open>from\<close>, and as the number the caller gave otherwise.
\<close>

theorem search_success_content:
  assumes "es_search be (searchRequest i q) = Inr result"
    and "from_text q = Inr from"
  shows "fst (search be i q)
           = text_fragment (''Total results: '' @ int_dec (total_count (hits_total result))
               @ '', showing '' @ nat_dec (length (hits_hits result))
               @ '' from position '' @ from)
             # map (\<lambda>hit. text_fragment (JSON_stringify (source hit))) (hits_hits result)
         \<and> length (fst (search be i q)) = 1 + length (hits_hits result)
         \<and> (q ''from'' = None \<longrightarrow> from = ''0'')
         \<and> (\<forall>n. q ''from'' = Some (JNum n) \<longrightarrow> from = int_dec (sint n))"
proof -
  have "from = ''0''" if "q ''from'' = None"
    using that assms(2) by (simp add: from_text_absent)
  moreover have "from = int_dec (sint n)" if "q ''from'' = Some (JNum n)" for n
    using that assms(2) by (simp add: from_text_number)
  moreover have "fst (search be i q)
      = metadataFragment result from # contentFragments result"
    using assms by (simp add: search_def)
  ultimately show ?thesis
    by (simp add: metadataFragment_def contentFragments_def)
qed

theorem search_success_content_witness:
  "es_search backend_up (searchRequest ''logs'' from_ten) = Inr two_hits
   \<and> from_text from_ten = Inr ''10''
   \<and> from_ten ''from'' = Some (JNum 10)
   \<and> fst (search backend_up ''logs'' from_ten)
       = [text_fragment ''Total results: 42, showing 2 from position 10'',
          text_fragment
            (''{'' @ newline
             @ ''  '' @ dquote @ ''a'' @ dquote @ '': 1,'' @ newline
             @ ''  '' @ dquote @ ''tags'' @ dquote @ '': ['' @ newline
             @ ''    '' @ dquote @ ''x'' @ dquote @ '','' @ newline
             @ ''    null'' @ newline
             @ ''  ]'' @ newline
             @ ''}''),
          text_fragment ''{}'']"
proof -
  have h: "es_search backend_up (searchRequest ''logs'' from_ten) = Inr two_hits"
    by (simp add: backend_up_def)
  have f: "from_ten ''from'' = Some (JNum 10)"
    by (simp add: from_ten_def)
  have d10: "int_dec 10 = ''10''"
    by code_simp
  have g: "from_text from_ten = Inr ''10''"
    using from_text_number [of from_ten 10] f by (simp add: d10)
  have d2: "nat_dec (Suc (Suc 0)) = ''2''"
    by code_simp
  have t: "total_count (hits_total two_hits) = 42"
    by (simp add: two_hits_def total_count_def)
  have l: "hits_hits two_hits
      = [\<lparr>source = JObj [(''a'', JNum 1), (''tags'', JArr [JStr ''x'', JNull])]\<rparr>,
         \<lparr>source = JObj []\<rparr>]"
    by (simp add: two_hits_def)
  from search_success_content [OF h g]
  have "fst (search backend_up ''logs'' from_ten)
      = [text_fragment ''Total results: 42, showing 2 from position 10'',
         text_fragment
           (JSON_stringify (JObj [(''a'', JNum 1), (''tags'', JArr [JStr ''x'', JNull])])),
         text_fragment ''{}'']"
    by (simp add: t l int_dec_42 d2 JSON_stringify_empty_object)
  then show ?thesis
    using h f g by (simp only: stringify_first_source simp_thms)
qed

section \<open>Mappings of an index without mapping data\<close>

text \<open>
  C9: when the backend's mapping reply has no entry for the index, or an entry
  without \<open>mappings\<close>, the call succeeds with two text fragments: the header naming
  the index, and the serialized mapping, which is the empty object literal \<open>{}\<close>.
\<close>

theorem get_mappings_absent_mapping:
  assumes "getMapping be i = Inr mappingResponse"
    and "map_of mappingResponse i = None
         \<or> (\<exists>entry. map_of mappingResponse i = Some (JObj entry)
               \<and> map_of entry ''mappings'' = None)"
  shows "get_mappings be i
           = ([text_fragment (''Mappings for index: '' @ i),
               text_fragment (''Mappings for index '' @ i @ '': {}'')],
              [GetMapping i])
         \<and> \<not> is_error_result (fst (get_mappings be i))"
proof -
  from assms(2) have "mappings_or_empty mappingResponse i = JObj []"
    by (auto simp: mappings_or_empty_def)
  with assms(1) show ?thesis
    by (simp add: get_mappings_def JSON_stringify_empty_object is_error_result_def)
qed

theorem get_mappings_absent_mapping_witness:
  "getMapping backend_up ''logs'' = Inr [(''other'', JObj [(''mappings'', JObj [])])]
   \<and> map_of [(''other'', JObj [(''mappings'', JObj [])])] ''logs'' = None
   \<and> get_mappings backend_up ''logs''
       = ([text_fragment ''Mappings for index: logs'',
           text_fragment ''Mappings for index logs: {}''],
          [GetMapping ''logs''])"
proof -
  have h1: "getMapping backend_up ''logs'' = Inr [(''other'', JObj [(''mappings'', JObj [])])]"
    by (simp add: backend_up_def)
  have h2: "map_of [(''other'', JObj [(''mappings'', JObj [])])] ''logs'' = None"
    by simp
  from get_mappings_absent_mapping [OF h1 disjI1, OF h2] h1 h2
  show ?thesis by simp
qed

section \<open>The index-list cache\<close>

lemma not_marked_cached:
  "\<not> suffix '' (cached)'' (''Found '' @ s @ '' indices'')"
proof
  assume "suffix '' (cached)'' (''Found '' @ s @ '' indices'')"
  then obtain zs where "''Found '' @ s @ '' indices'' = zs @ '' (cached)''"
    by (auto simp: suffix_def)
  then have "last (''Found '' @ s @ '' indices'') = last (zs @ '' (cached)'')"
    by (rule arg_cong)
  then show False
    by simp
qed

lemma cached_marked_cached:
  "suffix '' (cached)'' (text' (hd (cached_reply xs)))"
  by (simp add: cached_reply_def text_fragment_def suffix_def)

lemma cache_hit_stale:
  assumes "cachedIndices c = None \<or> cacheTimestamp c = None
           \<or> (\<exists>t. cacheTimestamp c = Some t \<and> CACHE_DURATION \<le> now - t)"
  shows "cache_hit now c = None"
  using assms by (auto simp: cache_hit_def split: option.splits)

text \<open>
  C4: a call made when there is no cache entry, or at least 600000 ms after the
  timestamp of the entry, makes exactly one backend call, the catalog fetch. When the
  fetch returns, the cache becomes the projection of the reply with the current time,
  and the result is \<open>Found N indices\<close> with the JSON dump, not marked \<open>(cached)\<close>.
\<close>

theorem stale_call_refreshes:
  assumes "cachedIndices c = None \<or> cacheTimestamp c = None
           \<or> (\<exists>t. cacheTimestamp c = Some t \<and> CACHE_DURATION \<le> now - t)"
  shows "backend_calls (snd (snd (list_indices be now c))) = [CatIndices]
         \<and> (\<forall>response. cat_indices be = Inr response \<longrightarrow>
               list_indices be now c
                 = ([text_fragment (''Found '' @ nat_dec (length response) @ '' indices''),
                     text_fragment (JSON_stringify (indices_json (map project response)))],
                    \<lparr>cachedIndices = Some (map project response), cacheTimestamp = Some now\<rparr>,
                    [CatIndices])
               \<and> \<not> suffix '' (cached)'' (text' (hd (fst (list_indices be now c)))))"
proof -
  have miss: "cache_hit now c = None"
    using assms by (rule cache_hit_stale)
  have calls: "backend_calls (snd (snd (list_indices be now c))) = [CatIndices]"
    using miss by (simp add: list_indices_def backend_calls_def split: sum.split)
  have fresh: "list_indices be now c
       = (fresh_reply (map project response),
          \<lparr>cachedIndices = Some (map project response), cacheTimestamp = Some now\<rparr>,
          [CatIndices])"
    if "cat_indices be = Inr response" for response
    using miss that by (simp add: list_indices_def)
  have unmarked: "\<not> suffix '' (cached)'' (text' (hd (fst (list_indices be now c))))"
    if "cat_indices be = Inr response" for response
    using fresh [OF that] not_marked_cached [of "nat_dec (length response)"]
    by (simp add: fresh_reply_def text_fragment_def)
  show ?thesis
    using calls fresh unmarked by (simp add: fresh_reply_def)
qed

theorem stale_call_refreshes_witness:
  "cacheTimestamp \<lparr>cachedIndices = Some [], cacheTimestamp = Some 1000\<rparr> = Some 1000
   \<and> CACHE_DURATION \<le> 601000 - 1000
   \<and> cat_indices backend_up = Inr [logs_entry]
   \<and> backend_calls (snd (snd (list_indices backend_up 601000
         \<lparr>cachedIndices = Some [], cacheTimestamp = Some 1000\<rparr>))) = [CatIndices]
   \<and> fst (snd (list_indices backend_up 601000
         \<lparr>cachedIndices = Some [], cacheTimestamp = Some 1000\<rparr>))
       = \<lparr>cachedIndices = Some [project logs_entry], cacheTimestamp = Some 601000\<rparr>"
proof -
  have h1: "cacheTimestamp \<lparr>cachedIndices = Some [], cacheTimestamp = Some 1000\<rparr> = Some 1000"
    by simp
  have h2: "CACHE_DURATION \<le> 601000 - 1000"
    by (simp add: CACHE_DURATION_def)
  have h3: "cat_indices backend_up = Inr [logs_entry]"
    by (simp add: backend_up_def)
  have h: "cachedIndices \<lparr>cachedIndices = Some [], cacheTimestamp = Some 1000\<rparr> = None
      \<or> cacheTimestamp \<lparr>cachedIndices = Some [], cacheTimestamp = Some 1000\<rparr> = None
      \<or> (\<exists>t. cacheTimestamp \<lparr>cachedIndices = Some [], cacheTimestamp = Some 1000\<rparr> = Some t
            \<and> CACHE_DURATION \<le> 601000 - t)"
    using h2 by simp
  from stale_call_refreshes [OF h, of backend_up] h1 h2 h3
  show ?thesis by (simp add: backend_calls_def)
qed

text \<open>
  C5: when the catalog fetch throws, the cache after the call is the cache before it,
  both the list and the timestamp, and the call that attempted the refresh returns the
  single \<open>Error:\<close> fragment, having called the backend once.
\<close>

theorem failed_refresh_keeps_cache:
  assumes "cat_indices be = Inl error"
  shows "fst (snd (list_indices be now c)) = c
         \<and> (cache_hit now c = None \<longrightarrow>
               fst (list_indices be now c) = [text_fragment (''Error: '' @ thrown_string error)]
               \<and> is_error_result (fst (list_indices be now c))
               \<and> backend_calls (snd (snd (list_indices be now c))) = [CatIndices])"
  using assms
  by (simp add: list_indices_def is_error_result_def text_fragment_def backend_calls_def
      split: option.split)

theorem failed_refresh_keeps_cache_witness:
  "cat_indices backend_down = Inl refused
   \<and> cache_hit 601000 \<lparr>cachedIndices = Some [project logs_entry], cacheTimestamp = Some 1000\<rparr> = None
   \<and> fst (snd (list_indices backend_down 601000
        \<lparr>cachedIndices = Some [project logs_entry], cacheTimestamp = Some 1000\<rparr>))
       = \<lparr>cachedIndices = Some [project logs_entry], cacheTimestamp = Some 1000\<rparr>
   \<and> fst (list_indices backend_down 601000
        \<lparr>cachedIndices = Some [project logs_entry], cacheTimestamp = Some 1000\<rparr>)
       = [text_fragment ''Error: ConnectionError: connect ECONNREFUSED'']"
proof -
  have h1: "cat_indices backend_down = Inl refused"
    by (simp add: backend_down_def)
  have h2: "cache_hit 601000
      \<lparr>cachedIndices = Some [project logs_entry], cacheTimestamp = Some 1000\<rparr> = None"
    by (simp add: cache_hit_def CACHE_DURATION_def)
  have h3: "thrown_string refused = ''ConnectionError: connect ECONNREFUSED''"
    by (simp add: refused_def)
  from failed_refresh_keeps_cache [OF h1, of 601000
      "\<lparr>cachedIndices = Some [project logs_entry], cacheTimestamp = Some 1000\<rparr>"] h1 h2
  show ?thesis by (simp add: h3)
qed

text \<open>The list and its timestamp are written together or not at all.\<close>

lemma list_indices_writes_both_or_neither:
  assumes "(cachedIndices c = None) = (cacheTimestamp c = None)"
  shows "(cachedIndices (fst (snd (list_indices be now c))) = None)
           = (cacheTimestamp (fst (snd (list_indices be now c))) = None)"
  using assms by (simp add: list_indices_def split: option.split sum.split)

subsection \<open>Calls within the ten minutes\<close>

lemma cache_hit_fresh:
  assumes "cachedIndices c = Some xs" "cacheTimestamp c = Some t" "t \<noteq> 0"
    "now - t < CACHE_DURATION"
  shows "list_indices be now c = (cached_reply xs, c, [])"
  using assms by (simp add: list_indices_def cache_hit_def)

lemma cached_run:
  assumes "cachedIndices c = Some xs" "cacheTimestamp c = Some t" "t \<noteq> 0"
    "\<forall>(be, now) \<in> set calls. now - t < CACHE_DURATION"
  shows "list_indices_calls calls c = map (\<lambda>call. (cached_reply xs, [])) calls"
  using assms
proof (induction calls)
  case Nil
  then show ?case by simp
next
  case (Cons call calls)
  obtain be now where call: "call = (be, now)"
    by (cases call)
  from Cons.prems call have "now - t < CACHE_DURATION"
    by simp
  with Cons.prems have "list_indices be now c = (cached_reply xs, c, [])"
    by (simp add: cache_hit_fresh)
  moreover from Cons have "list_indices_calls calls c = map (\<lambda>call. (cached_reply xs, [])) calls"
    by simp
  ultimately show ?case
    by (simp add: call)
qed

lemma refresh_then_cached_run:
  assumes "cache_hit t c = None" "cat_indices be = Inr response" "t \<noteq> 0"
    "\<forall>(be', now) \<in> set calls. now - t < CACHE_DURATION"
  shows "list_indices_calls ((be, t) # calls) c
           = (fresh_reply (map project response), [CatIndices])
             # map (\<lambda>call. (cached_reply (map project response), [])) calls"
proof -
  have "list_indices be t c
      = (fresh_reply (map project response),
         \<lparr>cachedIndices = Some (map project response), cacheTimestamp = Some t\<rparr>,
         [CatIndices])"
    using assms(1,2) by (simp add: list_indices_def)
  moreover have "list_indices_calls calls
        \<lparr>cachedIndices = Some (map project response), cacheTimestamp = Some t\<rparr>
      = map (\<lambda>call. (cached_reply (map project response), [])) calls"
    using assms(3,4) by (intro cached_run) simp_all
  ultimately show ?thesis
    by simp
qed

text \<open>
  C3: \<open>Date.now()\<close> counts the milliseconds since 1970, so the time \<open>t\<close> of a refresh is
  not 0. After a first call that refreshes successfully at \<open>t\<close>, every later call at a
  time \<open>t'\<close> with \<open>t' - t < 600000\<close>, whatever the backend would answer then, returns
  the same cached list, its count fragment ends in \<open>(cached)\<close>, and it makes no
  backend call and writes no log line.
\<close>

theorem calls_within_ten_minutes_are_cached:
  assumes "cache_hit t c = None" "cat_indices be = Inr response" "t \<noteq> 0"
    "\<forall>(be', now) \<in> set calls. now - t < CACHE_DURATION"
  shows "list_indices_calls ((be, t) # calls) c
           = (fresh_reply (map project response), [CatIndices])
             # map (\<lambda>call.
                 ([text_fragment (''Found '' @ nat_dec (length response) @ '' indices (cached)''),
                   text_fragment (JSON_stringify (indices_json (map project response)))],
                  [])) calls
         \<and> suffix '' (cached)''
             (''Found '' @ nat_dec (length response) @ '' indices (cached)'')"
proof -
  have "cached_reply (map project response)
      = [text_fragment (''Found '' @ nat_dec (length response) @ '' indices (cached)''),
         text_fragment (JSON_stringify (indices_json (map project response)))]"
    by (simp add: cached_reply_def)
  moreover have "suffix '' (cached)''
      (''Found '' @ nat_dec (length response) @ '' indices (cached)'')"
    by (simp add: suffix_def)
  ultimately show ?thesis
    using refresh_then_cached_run [OF assms] by simp
qed

theorem calls_within_ten_minutes_are_cached_witness:
  "cache_hit 1000 initial_cache = None
   \<and> cat_indices backend_up = Inr [logs_entry]
   \<and> (1000 :: int) \<noteq> 0
   \<and> 2000 - 1000 < CACHE_DURATION
   \<and> 600999 - 1000 < CACHE_DURATION
   \<and> list_indices_calls [(backend_up, 1000), (backend_down, 2000), (backend_up, 600999)]
        initial_cache
       = [(fresh_reply [project logs_entry], [CatIndices]),
          ([text_fragment ''Found 1 indices (cached)'',
            text_fragment (JSON_stringify (indices_json [project logs_entry]))], []),
          ([text_fragment ''Found 1 indices (cached)'',
            text_fragment (JSON_stringify (indices_json [project logs_entry]))], [])]"
proof -
  have h1: "cache_hit 1000 initial_cache = None"
    by (simp add: cache_hit_def initial_cache_def)
  have h2: "cat_indices backend_up = Inr [logs_entry]"
    by (simp add: backend_up_def)
  have h3: "(1000 :: int) \<noteq> 0"
    by simp
  have h4: "\<forall>(be', now) \<in> set [(backend_down, 2000), (backend_up, 600999)].
      now - 1000 < CACHE_DURATION"
    by (simp add: CACHE_DURATION_def)
  have d1: "nat_dec (Suc 0) = ''1''"
    by code_simp
  from calls_within_ten_minutes_are_cached [OF h1 h2 h3 h4]
  show ?thesis
    using h1 h2 by (simp add: CACHE_DURATION_def d1)
qed

text \<open>
  The truthiness test on \<open>cacheTimestamp\<close> reads a timestamp 0 as "no timestamp": were
  the clock to read 0 at a refresh, the next call would fetch again.
\<close>

lemma refresh_at_time_zero:
  "list_indices_calls [(backend_up, 0), (backend_up, 1)] initial_cache
     = [(fresh_reply [project logs_entry], [CatIndices]),
        (fresh_reply [project logs_entry], [CatIndices])]"
  by (simp add: list_indices_def cache_hit_def initial_cache_def backend_up_def)

section \<open>Validation before the search handler\<close>



end
